theory Spec2Isabelle
  imports Complex_Main
begin

section \<open>Data model (models.py, database.py)\<close>

text \<open>
  \<^verbatim>\<open>ItemSchema\<close> is the pydantic model of \<^verbatim>\<open>models.py\<close>, used for requests and
  responses alike. Its \<^verbatim>\<open>id\<close> is \<^verbatim>\<open>Optional[int]\<close>: a request may carry one or leave
  it out. A Python \<^verbatim>\<open>float\<close> is modelled by the real number it denotes; the only operation
  the program performs on a price is the schema's comparison with 0. Python's unbounded
  \<^verbatim>\<open>int\<close> is \<^typ>\<open>int\<close>, \<^verbatim>\<open>Optional[t]\<close> is \<^typ>\<open>'a option\<close>. An id and a stock
  are unbounded in a payload and in a path; what the backend does with an integer outside
  its 64-bit range is part of the model of the backend below.
\<close>

record item_schema =
  schema_id :: "int option"
  schema_name :: string
  schema_price :: real
  schema_description :: "string option"
  schema_stock :: int
  schema_category :: "string option"

text \<open>The constraints of \<^verbatim>\<open>ItemSchema\<close>: \<^verbatim>\<open>price: Field(..., gt=0)\<close> and
  \<^verbatim>\<open>stock: Field(..., ge=0)\<close>. The route layer only ever sees payloads that passed them.\<close>

definition valid_item :: "item_schema \<Rightarrow> bool" where
  "valid_item item \<longleftrightarrow> 0 < schema_price item \<and> 0 \<le> schema_stock item"

record user_schema =
  schema_email :: string
  schema_password :: string

text \<open>The rows of the tables \<^verbatim>\<open>items\<close> and \<^verbatim>\<open>users\<close> (\<^verbatim>\<open>ItemModel\<close>, \<^verbatim>\<open>UserModel\<close> of
  \<^verbatim>\<open>database.py\<close>).\<close>

record item_model =
  model_id :: int
  model_name :: string
  model_price :: real
  model_description :: "string option"
  model_stock :: int
  model_category :: "string option"

record user_model =
  user_id :: int
  email :: string
  hashed_password :: string

text \<open>The database file: two tables, each a list of rows.\<close>

record database =
  items :: "item_model list"
  users :: "user_model list"

definition empty_database :: database where
  "empty_database = \<lparr>items = [], users = []\<rparr>"

text \<open>
  What a coroutine of the program can raise. An error of the backend is an
  \<^verbatim>\<open>SQLAlchemyError\<close>: \<^verbatim>\<open>Fault msg\<close> is an error that strikes a call whatever its
  arguments (the connection is lost, the database is locked), with \<^verbatim>\<open>str(e) = msg\<close>; the
  others are raised for a cause the model knows, and are named by their class: a
  uniqueness constraint is violated (\<^verbatim>\<open>IntegrityError\<close>), no rowid is free
  (\<^verbatim>\<open>OperationalError\<close>), the row to refresh is gone (\<^verbatim>\<open>InvalidRequestError\<close>), a plain
  string is handed to \<^verbatim>\<open>execute\<close> (\<^verbatim>\<open>ObjectNotExecutableError\<close>). Their \<^verbatim>\<open>str(e)\<close> is the
  backend's own text and is not modelled.

  The detail of an \<^verbatim>\<open>HTTPException\<close> is a literal, or an f-string that appends \<^verbatim>\<open>str(e)\<close>
  of an error of the backend to a literal.

  \<^verbatim>\<open>OverflowError\<close> is the builtin exception the SQLite driver raises when it binds a
  Python \<^verbatim>\<open>int\<close> outside the 64-bit range; it is no \<^verbatim>\<open>SQLAlchemyError\<close>.
\<close>

datatype sqlalchemy_error =
    Fault string
  | IntegrityError
  | OperationalError
  | InvalidRequestError
  | ObjectNotExecutableError

datatype detail = Detail string | Detail_str string sqlalchemy_error

datatype exn = HTTPException int detail | SQLAlchemyError sqlalchemy_error | OverflowError

text \<open>
  The backend calls an operation awaits, and the faults of the backend during one
  operation: the calls that raise a \<^verbatim>\<open>Fault\<close>, each with the message of the error. No
  operation makes two calls of the same kind, so one entry per kind describes every way
  the backend can fail during it. The empty list is a backend that does not fail. When a
  call has a fault and also an argument the driver cannot bind, the fault is what it
  raises: a fault that would strike after the binding does not strike at all.
\<close>

datatype backend_call = BEGIN | EXECUTE | COMMIT | REFRESH

type_synonym faults = "(backend_call \<times> string) list"

text \<open>\<^verbatim>\<open>pwd_context\<close>, the passlib \<^verbatim>\<open>CryptContext\<close>: the library is not part of the
  repository, so its two functions are parameters of the model.\<close>

record crypt_context =
  hash :: "string \<Rightarrow> string"
  verify :: "string \<Rightarrow> string \<Rightarrow> bool"

section \<open>The backend\<close>

text \<open>The integers SQLite stores are 64-bit and signed; the largest is the largest
  rowid.\<close>

definition max_rowid :: int where
  "max_rowid = 9223372036854775807"

definition sqlite_integer :: "int \<Rightarrow> bool" where
  "sqlite_integer i \<longleftrightarrow> - max_rowid - 1 \<le> i \<and> i \<le> max_rowid"

text \<open>
  The primary key a row gets when the INSERT names none. \<^verbatim>\<open>id\<close> is an integer primary
  key of an SQLite table, that is the rowid: 1 in an empty table, and one more than the
  largest id in the table when that is below the largest rowid. When the largest rowid is
  in use, SQLite draws candidates at random, each brought into the range from 1 to
  4611686018427387904, takes the first that no row has, and gives up after 100 of them.
  The draws are the backend's, so they are a parameter; \<^verbatim>\<open>None\<close> is a search that gave
  up.
\<close>

definition assign_rowid :: "int list \<Rightarrow> int list \<Rightarrow> int option" where
  "assign_rowid draws ids =
     (case ids of
        [] \<Rightarrow> Some 1
      | i # is \<Rightarrow>
          let largest = fold max is i in
          if largest < max_rowid then Some (largest + 1)
          else find (\<lambda>v. v \<notin> set ids)
                 (map (\<lambda>d. d mod 4611686018427387904 + 1) (take 100 draws)))"

text \<open>\<^verbatim>\<open>session.execute(select(ItemModel).where(ItemModel.id == item_id))\<close> followed by
  \<^verbatim>\<open>result.scalars().first()\<close>: the first matching row, or \<^verbatim>\<open>None\<close>. The id is bound
  to the statement, which fails for an id outside the 64-bit range.\<close>

definition select_item_first :: "database \<Rightarrow> faults \<Rightarrow> int \<Rightarrow> exn + item_model option" where
  "select_item_first db flt item_id =
     (case map_of flt EXECUTE of
        Some msg \<Rightarrow> Inl (SQLAlchemyError (Fault msg))
      | None \<Rightarrow>
          if \<not> sqlite_integer item_id then Inl OverflowError
          else Inr (find (\<lambda>row. model_id row = item_id) (items db)))"

definition select_user_first :: "database \<Rightarrow> faults \<Rightarrow> string \<Rightarrow> exn + user_model option" where
  "select_user_first db flt addr =
     (case map_of flt EXECUTE of
        Some msg \<Rightarrow> Inl (SQLAlchemyError (Fault msg))
      | None \<Rightarrow> Inr (find (\<lambda>row. email row = addr) (users db)))"

text \<open>
  \<^verbatim>\<open>ItemModel(**item.dict())\<close>, \<^verbatim>\<open>session.add\<close> and \<^verbatim>\<open>session.commit\<close>: the INSERT of the
  pending row. \<^verbatim>\<open>item.dict()\<close> holds every field of the schema, \<^verbatim>\<open>id\<close> included, so the
  row is inserted under the id of the payload when it has one, and under the rowid the
  backend assigns when it has none. The id of the payload and the stock are bound to the
  statement: outside the 64-bit range the driver raises and nothing is inserted. A
  primary key that is already in the table violates its uniqueness: the backend raises
  and inserts nothing.
\<close>

definition commit_insert_item :: "database \<Rightarrow> faults \<Rightarrow> int list \<Rightarrow> item_schema \<Rightarrow> (exn + item_model) \<times> database" where
  "commit_insert_item db flt draws item =
     (case map_of flt COMMIT of
        Some msg \<Rightarrow> (Inl (SQLAlchemyError (Fault msg)), db)
      | None \<Rightarrow>
          if \<not> (case schema_id item of None \<Rightarrow> True | Some i \<Rightarrow> sqlite_integer i)
             \<or> \<not> sqlite_integer (schema_stock item)
          then (Inl OverflowError, db)
          else
            (case (case schema_id item of
                     None \<Rightarrow> assign_rowid draws (map model_id (items db))
                   | Some i \<Rightarrow> Some i) of
               None \<Rightarrow> (Inl (SQLAlchemyError OperationalError), db)
             | Some pk \<Rightarrow>
                 if pk \<in> set (map model_id (items db))
                 then (Inl (SQLAlchemyError IntegrityError), db)
                 else
                   let db_item = \<lparr>model_id = pk, model_name = schema_name item,
                                  model_price = schema_price item,
                                  model_description = schema_description item,
                                  model_stock = schema_stock item,
                                  model_category = schema_category item\<rparr>
                   in (Inr db_item, db\<lparr>items := items db @ [db_item]\<rparr>)))"

text \<open>\<^verbatim>\<open>session.refresh(db_item)\<close>: the row is read again by its primary key, which the
  INSERT has just accepted.\<close>

definition refresh_item :: "database \<Rightarrow> faults \<Rightarrow> item_model \<Rightarrow> exn + item_model" where
  "refresh_item db flt db_item =
     (case map_of flt REFRESH of
        Some msg \<Rightarrow> Inl (SQLAlchemyError (Fault msg))
      | None \<Rightarrow>
          (case find (\<lambda>row. model_id row = model_id db_item) (items db) of
             None \<Rightarrow> Inl (SQLAlchemyError InvalidRequestError)
           | Some row \<Rightarrow> Inr row))"

text \<open>The same for a pending \<^verbatim>\<open>UserModel(email=..., hashed_password=...)\<close>: it names no id,
  so the backend assigns the rowid. \<^verbatim>\<open>email\<close> is a unique column.\<close>

definition commit_insert_user :: "database \<Rightarrow> faults \<Rightarrow> int list \<Rightarrow> string \<Rightarrow> string \<Rightarrow> (exn + user_model) \<times> database" where
  "commit_insert_user db flt draws addr hashed =
     (case map_of flt COMMIT of
        Some msg \<Rightarrow> (Inl (SQLAlchemyError (Fault msg)), db)
      | None \<Rightarrow>
          (case assign_rowid draws (map user_id (users db)) of
             None \<Rightarrow> (Inl (SQLAlchemyError OperationalError), db)
           | Some pk \<Rightarrow>
               if addr \<in> set (map email (users db))
               then (Inl (SQLAlchemyError IntegrityError), db)
               else
                 let db_user = \<lparr>user_id = pk, email = addr, hashed_password = hashed\<rparr>
                 in (Inr db_user, db\<lparr>users := users db @ [db_user]\<rparr>)))"

definition refresh_user :: "database \<Rightarrow> faults \<Rightarrow> user_model \<Rightarrow> exn + user_model" where
  "refresh_user db flt db_user =
     (case map_of flt REFRESH of
        Some msg \<Rightarrow> Inl (SQLAlchemyError (Fault msg))
      | None \<Rightarrow>
          (case find (\<lambda>row. user_id row = user_id db_user) (users db) of
             None \<Rightarrow> Inl (SQLAlchemyError InvalidRequestError)
           | Some row \<Rightarrow> Inr row))"

text \<open>\<^verbatim>\<open>except SQLAlchemyError as e: ... raise HTTPException(...)\<close>: the handler replaces an
  error of the backend and lets every other exception pass, the \<^verbatim>\<open>OverflowError\<close>
  included.\<close>

definition except_SQLAlchemyError :: "(sqlalchemy_error \<Rightarrow> exn) \<Rightarrow> exn \<Rightarrow> exn" where
  "except_SQLAlchemyError handler e =
     (case e of
        SQLAlchemyError err \<Rightarrow> handler err
      | HTTPException code detail \<Rightarrow> e
      | OverflowError \<Rightarrow> e)"

section \<open>The Store: class Database (database.py)\<close>

text \<open>
  Every operation takes the database and the faults of the backend during the call, and
  returns what the coroutine returns or raises, with the database it leaves behind. An
  operation that inserts also takes the draws of the backend. A read leaves the database
  as it is and returns its result alone. A Python reference that may be \<^verbatim>\<open>None\<close> is an
  \<^typ>\<open>'a option\<close>; a row object is truthy, so \<^verbatim>\<open>if not item\<close> tests for \<^verbatim>\<open>None\<close>.
\<close>

text \<open>\<^verbatim>\<open>clear_data\<close> and \<^verbatim>\<open>reset_database\<close> run in one transaction of the engine
  (\<^verbatim>\<open>engine.begin()\<close>): when the backend raises, nothing changes. \<^verbatim>\<open>clear_data\<close> hands
  its first statement to \<^verbatim>\<open>conn.execute\<close> as a plain string, which the connection refuses
  before it reaches the database: once the transaction has begun, \<^verbatim>\<open>clear_data\<close> always
  raises and deletes nothing. Neither has a \<^verbatim>\<open>try\<close>.\<close>

definition clear_data :: "database \<Rightarrow> faults \<Rightarrow> (exn + unit) \<times> database" where
  "clear_data db flt =
     (case map_of flt BEGIN of
        Some msg \<Rightarrow> (Inl (SQLAlchemyError (Fault msg)), db)
      | None \<Rightarrow> (Inl (SQLAlchemyError ObjectNotExecutableError), db))"

definition reset_database :: "database \<Rightarrow> faults \<Rightarrow> (exn + unit) \<times> database" where
  "reset_database db flt =
     (case map_of flt BEGIN of
        Some msg \<Rightarrow> (Inl (SQLAlchemyError (Fault msg)), db)
      | None \<Rightarrow>
          (case map_of flt EXECUTE of
             Some msg \<Rightarrow> (Inl (SQLAlchemyError (Fault msg)), db)
           | None \<Rightarrow> (Inr (), db\<lparr>items := [], users := []\<rparr>)))"

definition create_item :: "database \<Rightarrow> faults \<Rightarrow> int list \<Rightarrow> item_schema \<Rightarrow> (exn + item_model) \<times> database" where
  "create_item db flt draws item =
     (let handler = (\<lambda>e. HTTPException 500 (Detail_str ''Error creating item: '' e)) in
      case commit_insert_item db flt draws item of
        (Inl e, db') \<Rightarrow> (Inl (except_SQLAlchemyError handler e), db')
      | (Inr db_item, db') \<Rightarrow>
          (case refresh_item db' flt db_item of
             Inl e \<Rightarrow> (Inl (except_SQLAlchemyError handler e), db')
           | Inr row \<Rightarrow> (Inr row, db')))"

definition get_item :: "database \<Rightarrow> faults \<Rightarrow> int \<Rightarrow> exn + item_model option" where
  "get_item db flt item_id =
     (case select_item_first db flt item_id of
        Inl e \<Rightarrow> Inl e
      | Inr item \<Rightarrow>
          if item = None then Inl (HTTPException 404 (Detail ''Item not found''))
          else Inr item)"

text \<open>\<^verbatim>\<open>get_all_items\<close> selects without an order; SQLite walks the table by rowid.\<close>

definition get_all_items :: "database \<Rightarrow> faults \<Rightarrow> exn + item_model list" where
  "get_all_items db flt =
     (case map_of flt EXECUTE of
        Some msg \<Rightarrow> Inl (HTTPException 500 (Detail_str ''Database error: '' (Fault msg)))
      | None \<Rightarrow> Inr (sort_key model_id (items db)))"

definition get_item_by_id :: "database \<Rightarrow> faults \<Rightarrow> int \<Rightarrow> exn + item_model option" where
  "get_item_by_id db flt item_id = select_item_first db flt item_id"

text \<open>
  \<^verbatim>\<open>update_item\<close> assigns the five fields to the row object it fetched, adds the object to
  its own session and commits: the UPDATE of the row with that primary key, to which the
  new stock is bound. It has no \<^verbatim>\<open>try\<close>: an exception leaves the coroutine as it is, and
  the session closes without a commit.
\<close>

definition update_item :: "database \<Rightarrow> faults \<Rightarrow> int \<Rightarrow> item_schema \<Rightarrow> (exn + item_model option) \<times> database" where
  "update_item db flt item_id item_data =
     (case get_item_by_id db flt item_id of
        Inl e \<Rightarrow> (Inl e, db)
      | Inr None \<Rightarrow> (Inl (HTTPException 404 (Detail ''Item not found'')), db)
      | Inr (Some item) \<Rightarrow>
          let item' = item\<lparr>model_name := schema_name item_data,
                           model_price := schema_price item_data,
                           model_description := schema_description item_data,
                           model_stock := schema_stock item_data,
                           model_category := schema_category item_data\<rparr>
          in (case map_of flt COMMIT of
                Some msg \<Rightarrow> (Inl (SQLAlchemyError (Fault msg)), db)
              | None \<Rightarrow>
                  if \<not> sqlite_integer (schema_stock item_data) then (Inl OverflowError, db)
                  else
                    (Inr (Some item'),
                     db\<lparr>items := map (\<lambda>row. if model_id row = model_id item' then item' else row)
                                       (items db)\<rparr>)))"

text \<open>\<^verbatim>\<open>delete_item\<close> fetches the row with \<^verbatim>\<open>get_item\<close>, whose 404 it lets pass, and has a
  \<^verbatim>\<open>raise\<close> of its own after the \<^verbatim>\<open>if db_item\<close>.\<close>

definition delete_item :: "database \<Rightarrow> faults \<Rightarrow> int \<Rightarrow> (exn + item_model option) \<times> database" where
  "delete_item db flt item_id =
     (case get_item db flt item_id of
        Inl e \<Rightarrow> (Inl e, db)
      | Inr (Some db_item) \<Rightarrow>
          (case map_of flt COMMIT of
             Some msg \<Rightarrow> (Inl (SQLAlchemyError (Fault msg)), db)
           | None \<Rightarrow>
               (Inr (Some db_item),
                db\<lparr>items := filter (\<lambda>row. model_id row \<noteq> model_id db_item) (items db)\<rparr>))
      | Inr None \<Rightarrow> (Inl (HTTPException 404 (Detail ''Item not found'')), db))"

definition get_user_by_email :: "database \<Rightarrow> faults \<Rightarrow> string \<Rightarrow> exn + user_model option" where
  "get_user_by_email db flt addr = select_user_first db flt addr"

text \<open>The body of \<^verbatim>\<open>create_user\<close> is one \<^verbatim>\<open>try\<close>: the handler also covers the lookup, and
  lets the 400 pass, which is no \<^verbatim>\<open>SQLAlchemyError\<close>.\<close>

definition create_user :: "database \<Rightarrow> crypt_context \<Rightarrow> faults \<Rightarrow> int list \<Rightarrow> user_schema \<Rightarrow> (exn + user_model) \<times> database" where
  "create_user db pwd_context flt draws user =
     (let handler = (\<lambda>e. HTTPException 500 (Detail ''Could not create user'')) in
      case get_user_by_email db flt (schema_email user) of
        Inl e \<Rightarrow> (Inl (except_SQLAlchemyError handler e), db)
      | Inr (Some existing_user) \<Rightarrow>
          (Inl (except_SQLAlchemyError handler
                  (HTTPException 400 (Detail ''Email already registered''))), db)
      | Inr None \<Rightarrow>
          (case commit_insert_user db flt draws (schema_email user)
                  (hash pwd_context (schema_password user)) of
             (Inl e, db') \<Rightarrow> (Inl (except_SQLAlchemyError handler e), db')
           | (Inr db_user, db') \<Rightarrow>
               (case refresh_user db' flt db_user of
                  Inl e \<Rightarrow> (Inl (except_SQLAlchemyError handler e), db')
                | Inr row \<Rightarrow> (Inr row, db'))))"

definition verify_password :: "crypt_context \<Rightarrow> string \<Rightarrow> string \<Rightarrow> bool" where
  "verify_password pwd_context plain_password hashed = verify pwd_context plain_password hashed"

section \<open>The routes (app.py)\<close>

text \<open>
  A response is a status code and a body. The body of a JSON object is a dictionary from
  keys to values. A route without \<^verbatim>\<open>response_model\<close> returns what FastAPI's
  \<^verbatim>\<open>jsonable_encoder\<close> makes of the returned object: for a row object, its column
  attributes. A route with \<^verbatim>\<open>response_model=ItemSchema\<close> returns the fields of the schema.
\<close>

datatype json = JNull | JInt int | JFloat real | JStr string

datatype body = Empty | Object "string \<Rightarrow> json option"

record response =
  status_code :: int
  content :: body

definition json_opt_str :: "string option \<Rightarrow> json" where
  "json_opt_str v = (case v of None \<Rightarrow> JNull | Some s \<Rightarrow> JStr s)"

definition user_json :: "user_model \<Rightarrow> string \<Rightarrow> json option" where
  "user_json u =
     [''id'' \<mapsto> JInt (user_id u), ''email'' \<mapsto> JStr (email u),
      ''hashed_password'' \<mapsto> JStr (hashed_password u)]"

definition item_json :: "item_model \<Rightarrow> string \<Rightarrow> json option" where
  "item_json r =
     [''id'' \<mapsto> JInt (model_id r), ''name'' \<mapsto> JStr (model_name r),
      ''price'' \<mapsto> JFloat (model_price r),
      ''description'' \<mapsto> json_opt_str (model_description r),
      ''stock'' \<mapsto> JInt (model_stock r),
      ''category'' \<mapsto> json_opt_str (model_category r)]"

text \<open>\<^verbatim>\<open>register\<close> makes two calls of the Store, each with its own faults.\<close>

definition register :: "database \<Rightarrow> crypt_context \<Rightarrow> faults \<Rightarrow> faults \<Rightarrow> int list \<Rightarrow> user_schema \<Rightarrow> (exn + response) \<times> database" where
  "register db pwd_context flt flt' draws user =
     (case get_user_by_email db flt (schema_email user) of
        Inl e \<Rightarrow> (Inl e, db)
      | Inr (Some existing_user) \<Rightarrow> (Inl (HTTPException 400 (Detail ''Email already registered'')), db)
      | Inr None \<Rightarrow>
          (case create_user db pwd_context flt' draws user of
             (Inl e, db') \<Rightarrow> (Inl e, db')
           | (Inr db_user, db') \<Rightarrow>
               (Inr \<lparr>status_code = 200, content = Object (user_json db_user)\<rparr>, db')))"

definition login :: "database \<Rightarrow> crypt_context \<Rightarrow> faults \<Rightarrow> user_schema \<Rightarrow> exn + response" where
  "login db pwd_context flt form_data =
     (case get_user_by_email db flt (schema_email form_data) of
        Inl e \<Rightarrow> Inl e
      | Inr None \<Rightarrow> Inl (HTTPException 404 (Detail ''User not found''))
      | Inr (Some user) \<Rightarrow>
          if \<not> verify_password pwd_context (schema_password form_data) (hashed_password user)
          then Inl (HTTPException 401 (Detail ''Incorrect password''))
          else Inr \<lparr>status_code = 200,
                    content = Object [''access_token'' \<mapsto> JStr (email user),
                                      ''token_type'' \<mapsto> JStr ''bearer'']\<rparr>)"

definition app_create_item :: "database \<Rightarrow> faults \<Rightarrow> int list \<Rightarrow> item_schema \<Rightarrow> (exn + response) \<times> database" where
  "app_create_item db flt draws item =
     (case create_item db flt draws item of
        (Inl e, db') \<Rightarrow> (Inl e, db')
      | (Inr row, db') \<Rightarrow> (Inr \<lparr>status_code = 201, content = Object (item_json row)\<rparr>, db'))"

definition app_get_item :: "database \<Rightarrow> faults \<Rightarrow> int \<Rightarrow> exn + response" where
  "app_get_item db flt item_id =
     (case get_item db flt item_id of
        Inl e \<Rightarrow> Inl e
      | Inr None \<Rightarrow> Inl (HTTPException 404 (Detail ''Item not found''))
      | Inr (Some item) \<Rightarrow> Inr \<lparr>status_code = 200, content = Object (item_json item)\<rparr>)"



section \<open>Sequences of Store calls, and the examples of the specification\<close>

text \<open>The Laptop of the schema's \<^verbatim>\<open>Field(example=...)\<close> values, the row it becomes under
  id 1, and a database holding that row.\<close>

definition laptop :: item_schema where
  "laptop = \<lparr>schema_id = None, schema_name = ''Laptop'', schema_price = 999.99,
     schema_description = Some ''A high-end laptop'', schema_stock = 10,
     schema_category = Some ''Electronics''\<rparr>"

definition laptop_row :: item_model where
  "laptop_row = \<lparr>model_id = 1, model_name = ''Laptop'', model_price = 999.99,
     model_description = Some ''A high-end laptop'', model_stock = 10,
     model_category = Some ''Electronics''\<rparr>"

definition stocked :: database where
  "stocked = \<lparr>items = [laptop_row], users = []\<rparr>"

text \<open>An integer one beyond the 64-bit range.\<close>

definition too_large :: int where
  "too_large = 9223372036854775808"


text \<open>A registration payload, and a stand-in for \<^verbatim>\<open>pwd_context\<close> to run the examples
  with: any pair of functions does.\<close>

definition alice :: user_schema where
  "alice = \<lparr>schema_email = ''a@b.com'', schema_password = ''x''\<rparr>"

definition toy_context :: crypt_context where
  "toy_context = \<lparr>hash = (\<lambda>plain. ''$toy$'' @ rev plain),
                   verify = (\<lambda>plain hashed. hashed = ''$toy$'' @ rev plain)\<rparr>"


definition response_keys :: "response \<Rightarrow> string set" where
  "response_keys r = (case content r of Empty \<Rightarrow> {} | Object obj \<Rightarrow> dom obj)"

text \<open>
  The calls of the Store that write, with their arguments, and the database each leaves
  behind. A call is validated when its item payload satisfies the constraints of
  \<^verbatim>\<open>ItemSchema\<close>, as every payload that reaches the Store through a route does.
\<close>

datatype store_call =
    CreateItem faults "int list" item_schema
  | UpdateItem faults int item_schema
  | DeleteItem faults int
  | CreateUser crypt_context faults "int list" user_schema
  | ClearData faults
  | ResetDatabase faults

fun call :: "database \<Rightarrow> store_call \<Rightarrow> database" where
  "call db (CreateItem flt draws item) = snd (create_item db flt draws item)"
| "call db (UpdateItem flt item_id item_data) = snd (update_item db flt item_id item_data)"
| "call db (DeleteItem flt item_id) = snd (delete_item db flt item_id)"
| "call db (CreateUser pwd_context flt draws user) = snd (create_user db pwd_context flt draws user)"
| "call db (ClearData flt) = snd (clear_data db flt)"
| "call db (ResetDatabase flt) = snd (reset_database db flt)"

fun validated :: "store_call \<Rightarrow> bool" where
  "validated (CreateItem flt draws item) = valid_item item"
| "validated (UpdateItem flt item_id item_data) = valid_item item_data"
| "validated c = True"

text \<open>The invariant of the specification: every persisted Item has a positive price and a
  stock that is not negative.\<close>

definition items_valid :: "database \<Rightarrow> bool" where
  "items_valid db = list_all (\<lambda>row. 0 < model_price row \<and> 0 \<le> model_stock row) (items db)"

text \<open>The database after \<^verbatim>\<open>alice\<close> registered with \<^verbatim>\<open>toy_context\<close>.\<close>

definition registered :: database where
  "registered = \<lparr>items = [], users = [\<lparr>user_id = 1, email = ''a@b.com'',
      hashed_password = ''$toy$x''\<rparr>]\<rparr>"

section \<open>Facts about the backend and the lookups\<close>

lemma fold_max_ge: "(i::int) \<le> fold max xs i \<and> (\<forall>x\<in>set xs. x \<le> fold max xs i)"
proof (induction xs arbitrary: i)
  case Nil
  then show ?case by simp
next
  case (Cons a xs)
  have "max a i \<le> fold max xs (max a i)" using Cons.IH by blast
  moreover have "\<forall>x\<in>set xs. x \<le> fold max xs (max a i)" using Cons.IH by blast
  ultimately show ?case by auto
qed


lemma find_Some_holds: "find P xs = Some x \<Longrightarrow> P x \<and> x \<in> set xs"
  by (induction xs) (auto split: if_splits)

lemma assign_rowid_fresh:
  assumes "assign_rowid draws ids = Some pk"
  shows "pk \<notin> set ids"
proof (cases ids)
  case Nil
  then show ?thesis by simp
next
  case (Cons i xs)
  show ?thesis
  proof (cases "fold max xs i < max_rowid")
    case True
    then have "pk = fold max xs i + 1"
      using assms Cons by (simp add: assign_rowid_def Let_def)
    moreover have "\<forall>x\<in>set (i # xs). x < fold max xs i + 1"
      using fold_max_ge [of i xs] by auto
    ultimately show ?thesis using Cons by auto
  next
    case False
    then have "find (\<lambda>v. v \<notin> set ids)
                 (map (\<lambda>d. d mod 4611686018427387904 + 1) (take 100 draws)) = Some pk"
      using assms Cons by (simp add: assign_rowid_def Let_def)
    then show ?thesis by (auto dest: find_Some_holds)
  qed
qed


lemma find_append_new:
  "\<forall>row\<in>set rows. \<not> P row \<Longrightarrow> P r \<Longrightarrow> find P (rows @ [r]) = Some r"
  by (induction rows) auto

lemma find_None_notin: "find (\<lambda>row. f row = k) rows = None \<longleftrightarrow> k \<notin> f ` set rows"
  by (induction rows) auto

lemma find_Some_key: "find (\<lambda>row. f row = k) rows = Some r \<Longrightarrow> f r = k \<and> r \<in> set rows"
  by (induction rows) (auto split: if_splits)


lemma get_user_by_email_absent:
  "map_of flt EXECUTE = None \<Longrightarrow> addr \<notin> email ` set (users db) \<Longrightarrow>
   get_user_by_email db flt addr = Inr None"
  using find_None_notin [of email addr "users db"]
  by (simp add: get_user_by_email_def select_user_first_def)

lemma get_user_by_email_present:
  "map_of flt EXECUTE = None \<Longrightarrow> addr \<in> email ` set (users db) \<Longrightarrow>
   \<exists>user. get_user_by_email db flt addr = Inr (Some user) \<and> email user = addr \<and> user \<in> set (users db)"
  using find_None_notin [of email addr "users db"] find_Some_key [of email addr "users db"]
  by (cases "find (\<lambda>row. email row = addr) (users db)")
     (auto simp: get_user_by_email_def select_user_first_def)

lemma create_user_new:
  assumes "map_of flt EXECUTE = None" and "map_of flt COMMIT = None" and "map_of flt REFRESH = None"
    and "schema_email user \<notin> email ` set (users db)"
    and "assign_rowid draws (map user_id (users db)) = Some pk"
  shows "create_user db pwd_context flt draws user =
           (Inr \<lparr>user_id = pk, email = schema_email user,
                  hashed_password = hash pwd_context (schema_password user)\<rparr>,
            db\<lparr>users := users db @
               [\<lparr>user_id = pk, email = schema_email user,
                  hashed_password = hash pwd_context (schema_password user)\<rparr>]\<rparr>)"
proof -
  define row where "row = \<lparr>user_id = pk, email = schema_email user,
                  hashed_password = hash pwd_context (schema_password user)\<rparr>"
  have ins: "commit_insert_user db flt draws (schema_email user)
               (hash pwd_context (schema_password user))
               = (Inr row, db\<lparr>users := users db @ [row]\<rparr>)"
    using assms(2,4,5) by (simp add: commit_insert_user_def Let_def row_def)
  have "\<forall>r\<in>set (users db). user_id r \<noteq> pk"
    using assign_rowid_fresh [OF assms(5)] by (auto simp: image_iff)
  then have "find (\<lambda>r. user_id r = user_id row) (users db @ [row]) = Some row"
    by (intro find_append_new) (auto simp: row_def)
  then have "refresh_user (db\<lparr>users := users db @ [row]\<rparr>) flt row = Inr row"
    using assms(3) by (simp add: refresh_user_def)
  then show ?thesis
    using ins get_user_by_email_absent [OF assms(1) assms(4)]
    by (simp add: create_user_def row_def)
qed

lemma register_new:
  assumes "map_of flt EXECUTE = None"
    and "map_of flt' EXECUTE = None" and "map_of flt' COMMIT = None" and "map_of flt' REFRESH = None"
    and "schema_email user \<notin> email ` set (users db)"
    and "assign_rowid draws (map user_id (users db)) = Some pk"
  shows "register db pwd_context flt flt' draws user =
           (Inr \<lparr>status_code = 200, content = Object (user_json
                  \<lparr>user_id = pk, email = schema_email user,
                    hashed_password = hash pwd_context (schema_password user)\<rparr>)\<rparr>,
            db\<lparr>users := users db @
               [\<lparr>user_id = pk, email = schema_email user,
                  hashed_password = hash pwd_context (schema_password user)\<rparr>]\<rparr>)"
  using get_user_by_email_absent [OF assms(1) assms(5)]
    create_user_new [OF assms(2) assms(3) assms(4) assms(5) assms(6), of pwd_context]
  by (simp add: register_def)





section \<open>The claims\<close>








lemma create_user_persists:
  assumes "create_user db pwd_context flt draws user = (Inr row, db')"
  shows "schema_email user \<in> email ` set (users db')"
proof -
  from assms obtain r where "commit_insert_user db flt draws (schema_email user)
      (hash pwd_context (schema_password user)) = (Inr r, db')"
    by (auto simp: create_user_def except_SQLAlchemyError_def Let_def
        split: sum.splits option.splits prod.splits)
  then show ?thesis
    by (auto simp: commit_insert_user_def Let_def split: option.splits if_splits)
qed

lemma register_persists:
  assumes "register db pwd_context flt flt' draws user = (Inr resp, db')"
  shows "schema_email user \<in> email ` set (users db')"
proof -
  from assms obtain row where "create_user db pwd_context flt' draws user = (Inr row, db')"
    by (auto simp: register_def split: sum.splits option.splits prod.splits)
  then show ?thesis by (rule create_user_persists)
qed

text \<open>
  Claim C3 (duplicate email). When the lookup of the backend does not fail: registering a
  user whose email a persisted user has raises
  \<^verbatim>\<open>HTTPException(400, "Email already registered")\<close> and leaves the database, so the user
  table, as it is; \<^verbatim>\<open>create_user\<close> of the Store does the same; and after a registration
  that succeeded, registering the same email again, with any password, raises the 400.
\<close>

theorem duplicate_email_conflict:
  assumes "map_of flt EXECUTE = None"
  shows "(schema_email user \<in> email ` set (users db) \<longrightarrow>
            register db pwd_context flt flt' draws user =
              (Inl (HTTPException 400 (Detail ''Email already registered'')), db)
          \<and> create_user db pwd_context flt draws user =
              (Inl (HTTPException 400 (Detail ''Email already registered'')), db))
       \<and> (register db0 pwd_context0 flt0 flt0' draws0 user0 = (Inr resp, db1)
            \<and> schema_email again = schema_email user0 \<longrightarrow>
            register db1 pwd_context flt flt' draws again =
              (Inl (HTTPException 400 (Detail ''Email already registered'')), db1))"
proof -
  have dup: "register d pwd_context flt flt' draws u = (Inl (HTTPException 400 (Detail ''Email already registered'')), d)
           \<and> create_user d pwd_context flt draws u = (Inl (HTTPException 400 (Detail ''Email already registered'')), d)"
    if "schema_email u \<in> email ` set (users d)" for d u
  proof -
    from get_user_by_email_present [OF assms that]
    obtain existing_user where "get_user_by_email d flt (schema_email u) = Inr (Some existing_user)"
      by blast
    then show ?thesis
      by (simp add: register_def create_user_def except_SQLAlchemyError_def)
  qed
  show ?thesis
  proof (intro conjI impI)
    assume "schema_email user \<in> email ` set (users db)"
    from dup [OF this]
    show "register db pwd_context flt flt' draws user = (Inl (HTTPException 400 (Detail ''Email already registered'')), db)"
      and "create_user db pwd_context flt draws user = (Inl (HTTPException 400 (Detail ''Email already registered'')), db)"
      by simp_all
  next
    assume a: "register db0 pwd_context0 flt0 flt0' draws0 user0 = (Inr resp, db1)
               \<and> schema_email again = schema_email user0"
    then have "schema_email again \<in> email ` set (users db1)"
      using register_persists [of db0 pwd_context0 flt0 flt0' draws0 user0 resp db1] by simp
    from dup [OF this]
    show "register db1 pwd_context flt flt' draws again = (Inl (HTTPException 400 (Detail ''Email already registered'')), db1)"
      by simp
  qed
qed

theorem duplicate_email_conflict_witness:
  "register empty_database toy_context [] [] [] alice =
     (Inr \<lparr>status_code = 200, content = Object (user_json
        \<lparr>user_id = 1, email = ''a@b.com'', hashed_password = ''$toy$x''\<rparr>)\<rparr>, registered)
   \<and> register registered toy_context [] [] [] (alice\<lparr>schema_password := ''y''\<rparr>) =
       (Inl (HTTPException 400 (Detail ''Email already registered'')), registered)
   \<and> create_user registered toy_context [] [] alice =
       (Inl (HTTPException 400 (Detail ''Email already registered'')), registered)"
proof -
  have first: "register empty_database toy_context [] [] [] alice =
     (Inr \<lparr>status_code = 200, content = Object (user_json
        \<lparr>user_id = 1, email = ''a@b.com'', hashed_password = ''$toy$x''\<rparr>)\<rparr>, registered)"
    using register_new [of "[]" "[]" alice empty_database "[]" 1 toy_context]
    by (simp add: empty_database_def alice_def toy_context_def registered_def assign_rowid_def)
  have present: "schema_email alice \<in> email ` set (users registered)"
    by (simp add: alice_def registered_def)
  have same: "schema_email (alice\<lparr>schema_password := ''y''\<rparr>) = schema_email alice"
    by simp
  show ?thesis
    using duplicate_email_conflict [of "[]" alice registered toy_context "[]" "[]" empty_database
        toy_context "[]" "[]" "[]" alice _ registered "alice\<lparr>schema_password := ''y''\<rparr>"]
      first present same by simp
qed

text \<open>
  Claim C4 (login). When the lookup of the backend does not fail: if no user has the email
  of the request, \<^verbatim>\<open>login\<close> raises \<^verbatim>\<open>HTTPException(404, "User not found")\<close>; if the user
  with that email exists and the password does not verify against the stored hash, it
  raises \<^verbatim>\<open>HTTPException(401, "Incorrect password")\<close>; if the password verifies, the
  response is the object with \<^verbatim>\<open>access_token\<close> the email and \<^verbatim>\<open>token_type\<close>
  \<^verbatim>\<open>"bearer"\<close>.
\<close>

theorem login_outcomes:
  assumes "map_of flt EXECUTE = None"
  shows "(schema_email form_data \<notin> email ` set (users db) \<longrightarrow>
            login db pwd_context flt form_data = Inl (HTTPException 404 (Detail ''User not found'')))
       \<and> (find (\<lambda>row. email row = schema_email form_data) (users db) = Some user
            \<and> \<not> verify pwd_context (schema_password form_data) (hashed_password user) \<longrightarrow>
            login db pwd_context flt form_data = Inl (HTTPException 401 (Detail ''Incorrect password'')))
       \<and> (find (\<lambda>row. email row = schema_email form_data) (users db) = Some user
            \<and> verify pwd_context (schema_password form_data) (hashed_password user) \<longrightarrow>
            login db pwd_context flt form_data =
              Inr \<lparr>status_code = 200,
                   content = Object [''access_token'' \<mapsto> JStr (schema_email form_data),
                                     ''token_type'' \<mapsto> JStr ''bearer'']\<rparr>)"
proof (intro conjI impI)
  assume "schema_email form_data \<notin> email ` set (users db)"
  from get_user_by_email_absent [OF assms this]
  show "login db pwd_context flt form_data = Inl (HTTPException 404 (Detail ''User not found''))"
    by (simp add: login_def)
next
  assume a: "find (\<lambda>row. email row = schema_email form_data) (users db) = Some user
             \<and> \<not> verify pwd_context (schema_password form_data) (hashed_password user)"
  then have "get_user_by_email db flt (schema_email form_data) = Inr (Some user)"
    using assms by (simp add: get_user_by_email_def select_user_first_def)
  then show "login db pwd_context flt form_data = Inl (HTTPException 401 (Detail ''Incorrect password''))"
    using a by (simp add: login_def verify_password_def)
next
  assume a: "find (\<lambda>row. email row = schema_email form_data) (users db) = Some user
             \<and> verify pwd_context (schema_password form_data) (hashed_password user)"
  then have g: "get_user_by_email db flt (schema_email form_data) = Inr (Some user)"
    using assms by (simp add: get_user_by_email_def select_user_first_def)
  have "email user = schema_email form_data"
    using a find_Some_key [of email "schema_email form_data" "users db" user] by simp
  then show "login db pwd_context flt form_data =
              Inr \<lparr>status_code = 200,
                   content = Object [''access_token'' \<mapsto> JStr (schema_email form_data),
                                     ''token_type'' \<mapsto> JStr ''bearer'']\<rparr>"
    using a g by (simp add: login_def verify_password_def)
qed

theorem login_outcomes_witness:
  "login registered toy_context [] \<lparr>schema_email = ''c@d.org'', schema_password = ''x''\<rparr> =
     Inl (HTTPException 404 (Detail ''User not found''))
   \<and> login registered toy_context [] (alice\<lparr>schema_password := ''y''\<rparr>) =
     Inl (HTTPException 401 (Detail ''Incorrect password''))
   \<and> login registered toy_context [] alice =
     Inr \<lparr>status_code = 200,
          content = Object [''access_token'' \<mapsto> JStr ''a@b.com'',
                            ''token_type'' \<mapsto> JStr ''bearer'']\<rparr>"
proof -
  let ?row = "\<lparr>user_id = 1, email = ''a@b.com'', hashed_password = ''$toy$x''\<rparr>"
  have absent: "schema_email \<lparr>schema_email = ''c@d.org'', schema_password = ''x''\<rparr>
                  \<notin> email ` set (users registered)"
    by (simp add: registered_def)
  have found: "find (\<lambda>row. email row = ''a@b.com'') (users registered) = Some ?row"
    by (simp add: registered_def)
  have wrong: "\<not> verify toy_context ''y'' (hashed_password ?row)"
    and right: "verify toy_context ''x'' (hashed_password ?row)"
    by (simp_all add: toy_context_def)
  show ?thesis
    using login_outcomes [of "[]" "\<lparr>schema_email = ''c@d.org'', schema_password = ''x''\<rparr>"
        registered toy_context ?row]
      login_outcomes [of "[]" "alice\<lparr>schema_password := ''y''\<rparr>" registered toy_context ?row]
      login_outcomes [of "[]" alice registered toy_context ?row]
      absent found wrong right
    by (simp add: alice_def)
qed




lemma user_json_keys: "dom (user_json u) = {''id'', ''email'', ''hashed_password''}"
  by (auto simp: user_json_def)

lemma create_user_returned:
  assumes "create_user db pwd_context flt draws user = (Inr row, db')"
  shows "email row = schema_email user
         \<and> hashed_password row = hash pwd_context (schema_password user)
         \<and> db' = db\<lparr>users := users db @ [row]\<rparr>"
proof -
  from assms obtain r where ins: "commit_insert_user db flt draws (schema_email user)
      (hash pwd_context (schema_password user)) = (Inr r, db')"
    and ref: "refresh_user db' flt r = Inr row"
    by (auto simp: create_user_def except_SQLAlchemyError_def Let_def
        split: sum.splits option.splits prod.splits)
  from ins obtain pk where pk: "assign_rowid draws (map user_id (users db)) = Some pk"
    and r: "r = \<lparr>user_id = pk, email = schema_email user,
                 hashed_password = hash pwd_context (schema_password user)\<rparr>"
    and db': "db' = db\<lparr>users := users db @ [r]\<rparr>"
    by (auto simp: commit_insert_user_def Let_def split: option.splits if_splits)
  have "\<forall>u\<in>set (users db). user_id u \<noteq> pk"
    using assign_rowid_fresh [OF pk] by (auto simp: image_iff)
  then have "find (\<lambda>u. user_id u = user_id r) (users db @ [r]) = Some r"
    by (intro find_append_new) (auto simp: r)
  then have "row = r"
    using ref db' by (auto simp: refresh_user_def split: option.splits)
  then show ?thesis using r db' by simp
qed

text \<open>
  Claim C6 (the body of a registration). The claim that the response carries no
  \<^verbatim>\<open>hashed_password\<close> fails: the route has no \<^verbatim>\<open>response_model\<close> and returns the row.
  What holds: for every registration of an email that is not registered, with a backend
  that does not fail (it raises no fault and assigns a rowid), and for every registration
  that succeeds at all, the response has status 200 and its body is the created row, which
  is appended to the user table: exactly the keys \<^verbatim>\<open>id\<close>, \<^verbatim>\<open>email\<close> and
  \<^verbatim>\<open>hashed_password\<close>, where \<^verbatim>\<open>email\<close> is the email of the request and
  \<^verbatim>\<open>hashed_password\<close> is the hash of its password; there is no \<^verbatim>\<open>password\<close> key.
\<close>

theorem register_response:
  "(map_of flt EXECUTE = None
     \<and> map_of flt' EXECUTE = None \<and> map_of flt' COMMIT = None \<and> map_of flt' REFRESH = None
     \<and> schema_email user \<notin> email ` set (users db)
     \<and> assign_rowid draws (map user_id (users db)) \<noteq> None \<longrightarrow>
      (\<exists>db_user db'. register db pwd_context flt flt' draws user =
             (Inr \<lparr>status_code = 200, content = Object (user_json db_user)\<rparr>, db')
           \<and> users db' = users db @ [db_user]
           \<and> response_keys \<lparr>status_code = 200, content = Object (user_json db_user)\<rparr> =
                {''id'', ''email'', ''hashed_password''}
           \<and> user_json db_user ''email'' = Some (JStr (schema_email user))
           \<and> user_json db_user ''hashed_password'' =
                Some (JStr (hash pwd_context (schema_password user)))
           \<and> user_json db_user ''password'' = None))
   \<and> (register db pwd_context flt flt' draws user = (Inr resp, db1) \<longrightarrow>
      (\<exists>db_user. resp = \<lparr>status_code = 200, content = Object (user_json db_user)\<rparr>
           \<and> users db1 = users db @ [db_user]
           \<and> response_keys resp = {''id'', ''email'', ''hashed_password''}
           \<and> user_json db_user ''email'' = Some (JStr (schema_email user))
           \<and> user_json db_user ''hashed_password'' =
                Some (JStr (hash pwd_context (schema_password user)))
           \<and> user_json db_user ''password'' = None))"
proof (intro conjI impI)
  assume a: "map_of flt EXECUTE = None
     \<and> map_of flt' EXECUTE = None \<and> map_of flt' COMMIT = None \<and> map_of flt' REFRESH = None
     \<and> schema_email user \<notin> email ` set (users db)
     \<and> assign_rowid draws (map user_id (users db)) \<noteq> None"
  then obtain pk where pk: "assign_rowid draws (map user_id (users db)) = Some pk" by auto
  define db_user where "db_user = \<lparr>user_id = pk,
      email = schema_email user, hashed_password = hash pwd_context (schema_password user)\<rparr>"
  have r: "register db pwd_context flt flt' draws user =
             (Inr \<lparr>status_code = 200, content = Object (user_json db_user)\<rparr>,
              db\<lparr>users := users db @ [db_user]\<rparr>)"
    using register_new [of flt flt' user db draws pk pwd_context] a pk by (simp add: db_user_def)
  have k: "response_keys \<lparr>status_code = 200, content = Object (user_json db_user)\<rparr> =
                {''id'', ''email'', ''hashed_password''}"
    by (simp add: response_keys_def user_json_keys)
  have e: "user_json db_user ''email'' = Some (JStr (schema_email user))"
    by (simp add: user_json_def db_user_def)
  have h: "user_json db_user ''hashed_password'' = Some (JStr (hash pwd_context (schema_password user)))"
    by (simp add: user_json_def db_user_def)
  have p: "user_json db_user ''password'' = None"
    by (simp add: user_json_def)
  show "\<exists>db_user db'. register db pwd_context flt flt' draws user =
             (Inr \<lparr>status_code = 200, content = Object (user_json db_user)\<rparr>, db')
           \<and> users db' = users db @ [db_user]
           \<and> response_keys \<lparr>status_code = 200, content = Object (user_json db_user)\<rparr> =
                {''id'', ''email'', ''hashed_password''}
           \<and> user_json db_user ''email'' = Some (JStr (schema_email user))
           \<and> user_json db_user ''hashed_password'' =
                Some (JStr (hash pwd_context (schema_password user)))
           \<and> user_json db_user ''password'' = None"
    by (intro exI [of _ db_user] exI [of _ "db\<lparr>users := users db @ [db_user]\<rparr>"])
       (simp only: r k e h p simp_thms, simp)
next
  assume "register db pwd_context flt flt' draws user = (Inr resp, db1)"
  then obtain row where c: "create_user db pwd_context flt' draws user = (Inr row, db1)"
    and resp: "resp = \<lparr>status_code = 200, content = Object (user_json row)\<rparr>"
    by (auto simp: register_def split: sum.splits option.splits prod.splits)
  from create_user_returned [OF c]
  have row: "email row = schema_email user"
    "hashed_password row = hash pwd_context (schema_password user)"
    "db1 = db\<lparr>users := users db @ [row]\<rparr>"
    by simp_all
  have k: "response_keys resp = {''id'', ''email'', ''hashed_password''}"
    by (simp add: resp response_keys_def user_json_keys)
  have e: "user_json row ''email'' = Some (JStr (schema_email user))"
    using row(1) by (simp add: user_json_def)
  have h: "user_json row ''hashed_password'' = Some (JStr (hash pwd_context (schema_password user)))"
    using row(2) by (simp add: user_json_def)
  have p: "user_json row ''password'' = None"
    by (simp add: user_json_def)
  have u: "users db1 = users db @ [row]" using row(3) by simp
  show "\<exists>db_user. resp = \<lparr>status_code = 200, content = Object (user_json db_user)\<rparr>
           \<and> users db1 = users db @ [db_user]
           \<and> response_keys resp = {''id'', ''email'', ''hashed_password''}
           \<and> user_json db_user ''email'' = Some (JStr (schema_email user))
           \<and> user_json db_user ''hashed_password'' =
                Some (JStr (hash pwd_context (schema_password user)))
           \<and> user_json db_user ''password'' = None"
    using resp u k e h p by (intro exI [of _ row]) simp
qed

theorem register_response_witness:
  "register empty_database toy_context [] [] [] alice =
     (Inr \<lparr>status_code = 200, content = Object (user_json
        \<lparr>user_id = 1, email = ''a@b.com'', hashed_password = ''$toy$x''\<rparr>)\<rparr>, registered)
   \<and> (\<exists>db_user db'. register empty_database toy_context [] [] [] alice =
             (Inr \<lparr>status_code = 200, content = Object (user_json db_user)\<rparr>, db')
           \<and> users db' = [db_user]
           \<and> response_keys \<lparr>status_code = 200, content = Object (user_json db_user)\<rparr> =
                {''id'', ''email'', ''hashed_password''}
           \<and> user_json db_user ''email'' = Some (JStr ''a@b.com'')
           \<and> user_json db_user ''hashed_password'' = Some (JStr ''$toy$x'')
           \<and> user_json db_user ''password'' = None)
   \<and> (\<exists>db_user. users registered = [db_user]
           \<and> user_json db_user ''email'' = Some (JStr ''a@b.com'')
           \<and> user_json db_user ''hashed_password'' = Some (JStr ''$toy$x'')
           \<and> user_json db_user ''password'' = None)"
proof -
  let ?resp = "\<lparr>status_code = 200, content = Object (user_json
        \<lparr>user_id = 1, email = ''a@b.com'', hashed_password = ''$toy$x''\<rparr>)\<rparr>"
  have first: "register empty_database toy_context [] [] [] alice = (Inr ?resp, registered)"
    by (simp add: register_def create_user_def get_user_by_email_def select_user_first_def
        commit_insert_user_def refresh_user_def empty_database_def alice_def toy_context_def
        assign_rowid_def registered_def Let_def)
  have hyps: "map_of ([] :: faults) EXECUTE = None \<and> map_of ([] :: faults) COMMIT = None
      \<and> map_of ([] :: faults) REFRESH = None
      \<and> schema_email alice \<notin> email ` set (users empty_database)
      \<and> assign_rowid [] (map user_id (users empty_database)) \<noteq> None"
    by (simp add: empty_database_def assign_rowid_def)
  have vals: "users empty_database = []" "schema_email alice = ''a@b.com''"
    "hash toy_context (schema_password alice) = ''$toy$x''"
    by (simp_all add: empty_database_def alice_def toy_context_def)
  from register_response [of "[]" "[]" alice empty_database "[]" toy_context ?resp registered]
    first hyps vals
  show ?thesis by auto
qed

theorem register_hashed_password_counterexample:
  "fst (register empty_database toy_context [] [] [] alice) =
     Inr \<lparr>status_code = 200, content = Object (user_json
        \<lparr>user_id = 1, email = ''a@b.com'', hashed_password = ''$toy$x''\<rparr>)\<rparr>
   \<and> ''hashed_password'' \<in> response_keys \<lparr>status_code = 200, content = Object (user_json
        \<lparr>user_id = 1, email = ''a@b.com'', hashed_password = ''$toy$x''\<rparr>)\<rparr>
   \<and> user_json \<lparr>user_id = 1, email = ''a@b.com'', hashed_password = ''$toy$x''\<rparr>
        ''hashed_password'' = Some (JStr ''$toy$x'')"
  by (simp add: register_def create_user_def get_user_by_email_def select_user_first_def
      commit_insert_user_def refresh_user_def empty_database_def alice_def toy_context_def
      assign_rowid_def response_keys_def user_json_def Let_def)




text \<open>
  Claim C8 (typed failures only). The claim is that no operation of the Store lets an
  exception of the backend reach its caller. \<^verbatim>\<open>create_item\<close> has the handler that maps it to
  a 500; \<^verbatim>\<open>update_item\<close>, \<^verbatim>\<open>delete_item\<close>, \<^verbatim>\<open>get_item\<close> and \<^verbatim>\<open>clear_data\<close> have none.
  With item 1 persisted and a backend that raises "database is locked" at the commit (at
  the execute for \<^verbatim>\<open>get_item\<close>, at the begin for \<^verbatim>\<open>clear_data\<close>), the four raise the
  \<^verbatim>\<open>SQLAlchemyError\<close> itself, where \<^verbatim>\<open>create_item\<close> raises \<^verbatim>\<open>HTTPException(500)\<close>; and
  \<^verbatim>\<open>clear_data\<close> raises an \<^verbatim>\<open>SQLAlchemyError\<close> even when the backend has no fault.
\<close>

theorem update_item_raises_backend_error:
  "update_item stocked [(COMMIT, ''database is locked'')] 1 (laptop\<lparr>schema_stock := 3\<rparr>) =
     (Inl (SQLAlchemyError (Fault ''database is locked'')), stocked)
   \<and> delete_item stocked [(COMMIT, ''database is locked'')] 1 =
     (Inl (SQLAlchemyError (Fault ''database is locked'')), stocked)
   \<and> get_item stocked [(EXECUTE, ''database is locked'')] 1 =
     Inl (SQLAlchemyError (Fault ''database is locked''))
   \<and> clear_data stocked [(BEGIN, ''database is locked'')] =
     (Inl (SQLAlchemyError (Fault ''database is locked'')), stocked)
   \<and> clear_data stocked [] = (Inl (SQLAlchemyError ObjectNotExecutableError), stocked)
   \<and> create_item stocked [(COMMIT, ''database is locked'')] [] laptop =
     (Inl (HTTPException 500 (Detail_str ''Error creating item: '' (Fault ''database is locked''))),
      stocked)"
  by (simp add: update_item_def delete_item_def clear_data_def create_item_def
      get_item_def get_item_by_id_def select_item_first_def commit_insert_item_def
      except_SQLAlchemyError_def stocked_def laptop_row_def laptop_def sqlite_integer_def
      max_rowid_def Let_def)

lemma create_item_items:
  "items (snd (create_item db flt draws item)) = items db
   \<or> (\<exists>pk. items (snd (create_item db flt draws item)) = items db @
         [\<lparr>model_id = pk, model_name = schema_name item, model_price = schema_price item,
           model_description = schema_description item, model_stock = schema_stock item,
           model_category = schema_category item\<rparr>])"
  by (auto simp: create_item_def commit_insert_item_def Let_def
      split: option.splits sum.splits prod.splits if_splits)

lemma create_item_valid:
  assumes "items_valid db" and "valid_item item"
  shows "items_valid (snd (create_item db flt draws item))"
  using create_item_items [of db flt draws item] assms
  by (auto simp: items_valid_def valid_item_def)

lemma update_item_valid:
  assumes "items_valid db" and "valid_item item_data"
  shows "items_valid (snd (update_item db flt item_id item_data))"
  using assms
  by (auto simp: update_item_def get_item_by_id_def select_item_first_def Let_def
      items_valid_def valid_item_def list_all_iff
      split: option.splits sum.splits)

lemma delete_item_valid:
  assumes "items_valid db"
  shows "items_valid (snd (delete_item db flt item_id))"
  using assms
  by (auto simp: delete_item_def items_valid_def list_all_iff
      split: option.splits sum.splits)

lemma create_user_items: "items (snd (create_user db pwd_context flt draws user)) = items db"
  by (auto simp: create_user_def commit_insert_user_def Let_def
      split: option.splits sum.splits prod.splits if_splits)

lemma call_valid:
  assumes "items_valid db" and "validated c"
  shows "items_valid (call db c)"
proof (cases c)
  case (CreateItem flt draws item)
  then show ?thesis using assms create_item_valid by simp
next
  case (UpdateItem flt item_id item_data)
  then show ?thesis using assms update_item_valid by simp
next
  case (DeleteItem flt item_id)
  then show ?thesis using assms delete_item_valid by simp
next
  case (CreateUser pwd_context flt draws user)
  then show ?thesis using assms create_user_items [of db pwd_context flt draws user]
    by (simp add: items_valid_def)
next
  case (ClearData flt)
  then show ?thesis using assms
    by (auto simp: clear_data_def items_valid_def split: option.splits)
next
  case (ResetDatabase flt)
  then show ?thesis using assms
    by (auto simp: reset_database_def items_valid_def split: option.splits)
qed

text \<open>
  Claim C9 (the invariant of the items). From a database in which every persisted Item has
  a positive price and a stock that is not negative, so from the empty one, every sequence
  of Store calls whose item payloads are validated leaves such a database, whatever the
  faults and the draws of the backend during the calls.
\<close>

theorem items_stay_valid:
  assumes "items_valid db" and "list_all validated calls"
  shows "items_valid (foldl call db calls)"
  using assms
proof (induction calls arbitrary: db)
  case Nil
  then show ?case by simp
next
  case (Cons c calls)
  then have "items_valid (call db c)" by (simp add: call_valid)
  then show ?case using Cons by simp
qed

theorem items_stay_valid_witness:
  "items_valid (foldl call empty_database
     [CreateItem [] [] laptop, UpdateItem [] 1 (laptop\<lparr>schema_price := 5, schema_stock := 0\<rparr>),
      CreateItem [(REFRESH, ''connection lost'')] [] (laptop\<lparr>schema_id := Some 7\<rparr>),
      DeleteItem [] 1])"
proof -
  have start: "items_valid empty_database"
    by (simp add: items_valid_def empty_database_def)
  have ok: "list_all validated
     [CreateItem [] [] laptop, UpdateItem [] 1 (laptop\<lparr>schema_price := 5, schema_stock := 0\<rparr>),
      CreateItem [(REFRESH, ''connection lost'')] [] (laptop\<lparr>schema_id := Some 7\<rparr>),
      DeleteItem [] 1]"
    by (simp add: valid_item_def laptop_def)
  show ?thesis using items_stay_valid [OF start ok] .
qed

text \<open>
  Claim C10 (\<^verbatim>\<open>get_item\<close> never returns \<^verbatim>\<open>None\<close>). The part of the claim that \<^verbatim>\<open>get_item\<close>
  returns an Item or raises NotFound for every id fails: for an id outside the 64-bit
  range of the backend it raises the \<^verbatim>\<open>OverflowError\<close> of the driver. What holds: for every
  database, faults and id, \<^verbatim>\<open>get_item\<close> does not return \<^verbatim>\<open>None\<close>; when the lookup does not
  fail, it returns an Item or raises the 404 for a 64-bit id, and raises the
  \<^verbatim>\<open>OverflowError\<close> for any other. So the \<^verbatim>\<open>raise\<close> that ends \<^verbatim>\<open>delete_item\<close> and the one
  under \<^verbatim>\<open>if not item\<close> in the GET route are never reached: each function is equal to the
  one whose \<^verbatim>\<open>None\<close> branch is replaced by anything else.
\<close>

theorem get_item_never_none:
  "get_item db flt item_id \<noteq> Inr None
   \<and> (map_of flt EXECUTE = None \<and> sqlite_integer item_id \<longrightarrow>
        (\<exists>item. get_item db flt item_id = Inr (Some item))
        \<or> get_item db flt item_id = Inl (HTTPException 404 (Detail ''Item not found'')))
   \<and> (map_of flt EXECUTE = None \<and> \<not> sqlite_integer item_id \<longrightarrow>
        get_item db flt item_id = Inl OverflowError)
   \<and> delete_item db flt item_id =
        (case get_item db flt item_id of
           Inl e \<Rightarrow> (Inl e, db)
         | Inr (Some db_item) \<Rightarrow>
             (case map_of flt COMMIT of
                Some msg \<Rightarrow> (Inl (SQLAlchemyError (Fault msg)), db)
              | None \<Rightarrow>
                  (Inr (Some db_item),
                   db\<lparr>items := filter (\<lambda>row. model_id row \<noteq> model_id db_item) (items db)\<rparr>))
         | Inr None \<Rightarrow> unreached)
   \<and> app_get_item db flt item_id =
        (case get_item db flt item_id of
           Inl e \<Rightarrow> Inl e
         | Inr None \<Rightarrow> unreached_route
         | Inr (Some item) \<Rightarrow> Inr \<lparr>status_code = 200, content = Object (item_json item)\<rparr>)"
proof -
  have n: "get_item db flt item_id \<noteq> Inr None"
    by (simp add: get_item_def split: sum.splits)
  have e: "map_of flt EXECUTE = None \<and> sqlite_integer item_id \<longrightarrow>
        (\<exists>item. get_item db flt item_id = Inr (Some item))
        \<or> get_item db flt item_id = Inl (HTTPException 404 (Detail ''Item not found''))"
    by (auto simp: get_item_def select_item_first_def)
  have o: "map_of flt EXECUTE = None \<and> \<not> sqlite_integer item_id \<longrightarrow>
        get_item db flt item_id = Inl OverflowError"
    by (simp add: get_item_def select_item_first_def)
  have d: "delete_item db flt item_id =
        (case get_item db flt item_id of
           Inl e \<Rightarrow> (Inl e, db)
         | Inr (Some db_item) \<Rightarrow>
             (case map_of flt COMMIT of
                Some msg \<Rightarrow> (Inl (SQLAlchemyError (Fault msg)), db)
              | None \<Rightarrow>
                  (Inr (Some db_item),
                   db\<lparr>items := filter (\<lambda>row. model_id row \<noteq> model_id db_item) (items db)\<rparr>))
         | Inr None \<Rightarrow> unreached)"
    using n by (simp add: delete_item_def split: sum.splits option.splits)
  have a: "app_get_item db flt item_id =
        (case get_item db flt item_id of
           Inl e \<Rightarrow> Inl e
         | Inr None \<Rightarrow> unreached_route
         | Inr (Some item) \<Rightarrow> Inr \<lparr>status_code = 200, content = Object (item_json item)\<rparr>)"
    using n by (simp add: app_get_item_def split: sum.splits option.splits)
  from n e o d a show ?thesis by (intro conjI)
qed

theorem get_item_never_none_witness:
  "get_item stocked [] 1 = Inr (Some laptop_row)
   \<and> get_item stocked [] 5 = Inl (HTTPException 404 (Detail ''Item not found''))
   \<and> get_item stocked [] too_large = Inl OverflowError
   \<and> get_item stocked [(EXECUTE, ''database is locked'')] 1 \<noteq> Inr None"
proof -
  have f: "map_of ([] :: faults) EXECUTE = None" by simp
  have r: "sqlite_integer 1" "sqlite_integer 5" "\<not> sqlite_integer too_large"
    by (simp_all add: sqlite_integer_def max_rowid_def too_large_def)
  have one: "get_item stocked [] 1 \<noteq> Inl (HTTPException 404 (Detail ''Item not found''))"
    by (simp add: get_item_def select_item_first_def stocked_def laptop_row_def r)
  have five: "\<not> (\<exists>item. get_item stocked [] 5 = Inr (Some item))"
    by (simp add: get_item_def select_item_first_def stocked_def laptop_row_def r)
  have "\<exists>item. get_item stocked [] 1 = Inr (Some item)"
    using get_item_never_none [of stocked "[]" 1] f r one by blast
  then have "get_item stocked [] 1 = Inr (Some laptop_row)"
    by (auto simp: get_item_def select_item_first_def stocked_def split: if_splits)
  moreover have "get_item stocked [] 5 = Inl (HTTPException 404 (Detail ''Item not found''))"
    using get_item_never_none [of stocked "[]" 5] f r five by blast
  moreover have "get_item stocked [] too_large = Inl OverflowError"
    using get_item_never_none [of stocked "[]" too_large] f r by blast
  moreover have "get_item stocked [(EXECUTE, ''database is locked'')] 1 \<noteq> Inr None"
    using get_item_never_none [of stocked "[(EXECUTE, ''database is locked'')]" 1] by blast
  ultimately show ?thesis by blast
qed

theorem get_item_overflow_counterexample:
  "get_item stocked [] too_large = Inl OverflowError
   \<and> app_get_item stocked [] too_large = Inl OverflowError"
  by (simp add: get_item_def app_get_item_def select_item_first_def too_large_def
      sqlite_integer_def max_rowid_def)

end
